theory Spec2Isabelle
  imports Main "HOL-Library.AList" "HOL-Library.Multiset" "HOL-Library.Sublist"
begin

section \<open>The SPTP client configuration (ptp/sptp/client/config.go)\<close>

text \<open>
  The embedding follows \<^verbatim>\<open>config.go\<close> function by function.

  \<^item> Go's \<^verbatim>\<open>int\<close> and \<^verbatim>\<open>time.Duration\<close> (an int64 count of nanoseconds) are
    modelled as \<open>int\<close>: the file only compares and copies these numbers, its only
    arithmetic is on the constants of \<^verbatim>\<open>DefaultConfig\<close> and on a loop index bounded by
    the length of a slice, so no operation can overflow.
  \<^item> A Go \<^verbatim>\<open>map[string]int\<close> is an association list with pairwise distinct keys. The
    order of the list is the order in which a \<^verbatim>\<open>range\<close> statement visits the entries;
    Go leaves that order open, and so a statement about every list is a statement about
    every order. \<^verbatim>\<open>m[k] = v\<close> is \<open>AList.update k v m\<close>, \<^verbatim>\<open>len(m) == 0\<close> is \<open>m = []\<close>,
    a lookup is \<open>map_of m k\<close>.
  \<^item> A Go \<^verbatim>\<open>error\<close> is \<open>error option\<close> (\<open>None\<close> is \<^verbatim>\<open>nil\<close>); an error value records
    the format string of \<^verbatim>\<open>fmt.Errorf\<close>, its \<^verbatim>\<open>%q\<close> arguments and the error wrapped by
    \<^verbatim>\<open>%w\<close>.
  \<^item> The package constants declared outside this file (\<^verbatim>\<open>HWTIMESTAMP\<close>, \<^verbatim>\<open>SWTIMESTAMP\<close>,
    \<^verbatim>\<open>FilterNone\<close>, \<^verbatim>\<open>FilterMean\<close>, \<^verbatim>\<open>FilterMedian\<close>) are parameters, collected in the
    record \<open>constants\<close>.
  \<^item> The libraries the file calls (\<^verbatim>\<open>os.ReadFile\<close>, \<^verbatim>\<open>yaml.Unmarshal\<close>, \<^verbatim>\<open>net.ParseIP\<close>,
    \<^verbatim>\<open>net.LookupHost\<close>) are parameters, collected in the record \<open>world\<close>. Within one
    call of \<^verbatim>\<open>PrepareConfig\<close> each of them is a function of its arguments.
  \<^item> What the code does besides returning (the log lines of logrus and the name
    lookups) is a list of events returned next to the result.
\<close>

subsection \<open>Durations\<close>

type_synonym duration = int

definition Nanosecond :: duration where
  "Nanosecond = 1"

definition Millisecond :: duration where
  "Millisecond = 1000000 * Nanosecond"

definition Second :: duration where
  "Second = 1000 * Millisecond"

subsection \<open>Errors\<close>

datatype error =
    Errorf string "string list"
  | Wrapf string "string list" error
  | Foreign string


subsection \<open>Data model\<close>

record MeasurementConfig =
  PathDelayFilterLength :: int
  PathDelayFilter :: string
  PathDelayDiscardFilterEnabled :: bool
  PathDelayDiscardBelow :: duration

record Config =
  Iface :: string
  Timestamping :: string
  MonitoringPort :: int
  Interval :: duration
  ExchangeTimeout :: duration
  DSCP :: int
  FirstStepThreshold :: duration
  Servers :: "(string \<times> int) list"
  Measurement :: MeasurementConfig
  MetricsAggregationWindow :: duration
  AttemptsTXTS :: int
  TimeoutTXTS :: duration
  FreeRunning :: bool

record constants =
  HWTIMESTAMP :: string
  SWTIMESTAMP :: string
  FilterNone :: string
  FilterMean :: string
  FilterMedian :: string

text \<open>
  \<open>os_ReadFile path\<close> and \<open>net_LookupHost name\<close> return Go's pair of a value and an error;
  \<open>net_ParseIP s\<close> holds when \<^verbatim>\<open>net.ParseIP(s) != nil\<close>.

  \<^verbatim>\<open>ReadConfig\<close> calls \<^verbatim>\<open>yaml.Unmarshal(cData, &c)\<close> with the address of its pointer
  variable \<open>c\<close>, so the decoder can fill the Config that \<open>c\<close> points to and can also
  store another pointer in \<open>c\<close>. \<open>yaml_Unmarshal data c0\<close>, for the Config \<open>c0\<close> that
  \<open>c\<close> points to before the call, returns the value of \<open>c\<close> after the call and the
  error: \<open>Some c'\<close> when \<open>c\<close> points to the Config \<open>c'\<close>, \<open>None\<close> when the decoder has
  set \<open>c\<close> to \<^verbatim>\<open>nil\<close>, as yaml.v2 does without an error for a document that is the YAML
  null.
\<close>

record world =
  os_ReadFile :: "string \<Rightarrow> string \<times> error option"
  yaml_Unmarshal :: "string \<Rightarrow> Config \<Rightarrow> Config option \<times> error option"
  net_ParseIP :: "string \<Rightarrow> bool"
  net_LookupHost :: "string \<Rightarrow> string list \<times> error option"

text \<open>
  A call returns its values or panics. The one panic that this file can raise is the
  runtime's nil pointer dereference.
\<close>

datatype 'a outcome = Returns 'a | NilPointerPanic

datatype event =
    Warningf string string
  | Debugf string Config
  | LookupHost string

subsection \<open>MeasurementConfig.Validate (lines 38-46)\<close>

definition MeasurementConfig_Validate :: "constants \<Rightarrow> MeasurementConfig \<Rightarrow> error option" where
  "MeasurementConfig_Validate k c =
     (if PathDelayFilterLength c < 0 then
        Some (Errorf ''path_delay_filter_length must be 0 or positive'' [])
      else if PathDelayFilter c \<noteq> FilterNone k \<and> PathDelayFilter c \<noteq> FilterMean k
              \<and> PathDelayFilter c \<noteq> FilterMedian k then
        Some (Errorf ''path_delay_filter must be either %q, %q or %q''
                [FilterNone k, FilterMean k, FilterMedian k])
      else None)"

subsection \<open>DefaultConfig (lines 66-75)\<close>

text \<open>The fields the composite literal does not name hold the zero value of their type.\<close>

definition DefaultConfig :: "constants \<Rightarrow> Config" where
  "DefaultConfig k =
     \<lparr> Iface = '''',
       Timestamping = HWTIMESTAMP k,
       MonitoringPort = 0,
       Interval = Second,
       ExchangeTimeout = 100 * Millisecond,
       DSCP = 0,
       FirstStepThreshold = 0,
       Servers = [],
       Measurement = \<lparr> PathDelayFilterLength = 0, PathDelayFilter = '''',
                       PathDelayDiscardFilterEnabled = False, PathDelayDiscardBelow = 0 \<rparr>,
       MetricsAggregationWindow = 60 * Second,
       AttemptsTXTS = 10,
       TimeoutTXTS = 50 * Millisecond,
       FreeRunning = False \<rparr>"

subsection \<open>Config.Validate (lines 78-113)\<close>

definition Validate :: "constants \<Rightarrow> Config \<Rightarrow> error option" where
  "Validate k c =
     (if Interval c \<le> 0 then
        Some (Errorf ''interval must be greater than zero'' [])
      else if AttemptsTXTS c \<le> 0 then
        Some (Errorf ''attemptstxts must be greater than zero'' [])
      else if TimeoutTXTS c \<le> 0 then
        Some (Errorf ''timeouttxts must be greater than zero'' [])
      else if MetricsAggregationWindow c \<le> 0 then
        Some (Errorf ''metricsaggregationwindow must be greater than zero'' [])
      else if MonitoringPort c < 0 then
        Some (Errorf ''monitoringport must be 0 or positive'' [])
      else if DSCP c < 0 then
        Some (Errorf ''dscp must be 0 or positive'' [])
      else if ExchangeTimeout c \<le> 0 \<or> ExchangeTimeout c \<ge> Interval c then
        Some (Errorf ''exchangetimeout must be greater than zero but less than interval'' [])
      else if length (Servers c) = 0 then
        Some (Errorf ''at least one server must be specified'' [])
      else if Timestamping c \<noteq> HWTIMESTAMP k \<and> Timestamping c \<noteq> SWTIMESTAMP k then
        Some (Errorf ''only %q and %q timestamping is supported'' [HWTIMESTAMP k, SWTIMESTAMP k])
      else if Iface c = '''' then
        Some (Errorf ''iface must be specified'' [])
      else (case MeasurementConfig_Validate k (Measurement c) of
              Some err \<Rightarrow> Some (Wrapf ''invalid measurement config: %w'' [] err)
            | None \<Rightarrow> None))"

subsection \<open>ReadConfig (lines 116-129)\<close>

text \<open>
  The result is Go's pair \<^verbatim>\<open>(*Config, error)\<close>, each component \<open>None\<close> when it is
  \<^verbatim>\<open>nil\<close>. The last \<^verbatim>\<open>return c, nil\<close> returns the pointer as the decoder left it, and
  so the pair can be \<open>(None, None)\<close>.
\<close>

definition ReadConfig :: "constants \<Rightarrow> world \<Rightarrow> string \<Rightarrow> Config option \<times> error option" where
  "ReadConfig k w path =
     (let c = DefaultConfig k in
      case os_ReadFile w path of
        (cData, Some err) \<Rightarrow> (None, Some err)
      | (cData, None) \<Rightarrow>
          (case yaml_Unmarshal w cData c of
             (c', Some err) \<Rightarrow> (None, Some err)
           | (c', None) \<Rightarrow> (c', None)))"

subsection \<open>addrToIPstr (lines 131-139)\<close>

definition addrToIPstr :: "world \<Rightarrow> string \<Rightarrow> string \<times> event list" where
  "addrToIPstr w address =
     (if \<not> net_ParseIP w address then
        (case net_LookupHost w address of
           (names, err) \<Rightarrow>
             (if err = None \<and> length names > 0 then names ! 0 else address,
              [LookupHost address]))
      else (address, []))"

text \<open>The address that the normalizer returns, without its events.\<close>

definition resolved :: "world \<Rightarrow> string \<Rightarrow> string" where
  "resolved w address = fst (addrToIPstr w address)"

subsection \<open>PrepareConfig (lines 142-193)\<close>

definition warn :: "string \<Rightarrow> event" where
  "warn name = Warningf ''overriding %s from CLI flag'' name"

text \<open>
  Lines 157-160, \<^verbatim>\<open>for i, t := range targets\<close>: \<open>i\<close> is the index of the head of the
  rest of the slice.
\<close>

fun range_targets ::
  "world \<Rightarrow> int \<Rightarrow> string list \<Rightarrow> (string \<times> int) list \<times> event list
     \<Rightarrow> (string \<times> int) list \<times> event list" where
  "range_targets w i [] (servers, log) = (servers, log)"
| "range_targets w i (t # ts) (servers, log) =
     (case addrToIPstr w t of
        (address, evs) \<Rightarrow>
          range_targets w (i + 1) ts (AList.update address i servers, log @ evs))"

text \<open>
  Lines 163-166, \<^verbatim>\<open>for t, i := range cfg.Servers\<close>: the entries come in the order of the
  association list.
\<close>

fun range_servers ::
  "world \<Rightarrow> (string \<times> int) list \<Rightarrow> (string \<times> int) list \<times> event list
     \<Rightarrow> (string \<times> int) list \<times> event list" where
  "range_servers w [] (newServers, log) = (newServers, log)"
| "range_servers w ((t, i) # rest) (newServers, log) =
     (case addrToIPstr w t of
        (address, evs) \<Rightarrow>
          range_servers w rest (AList.update address i newServers, log @ evs))"

text \<open>
  Lines 143-153: the defaults, replaced by the file's Config when a path is given.
  \<open>Inl err\<close> is the \<^verbatim>\<open>return nil, err\<close> of line 151; \<open>Inr cfg\<close> is the pointer \<open>cfg\<close>
  with which the function goes on, \<open>None\<close> when \<^verbatim>\<open>ReadConfig\<close> has returned
  \<^verbatim>\<open>nil, nil\<close>.
\<close>

definition defaults_file_stage ::
  "constants \<Rightarrow> world \<Rightarrow> string \<Rightarrow> error + Config option" where
  "defaults_file_stage k w cfgPath =
     (let cfg = Some (DefaultConfig k) in
      if cfgPath \<noteq> '''' then
        (case ReadConfig k w cfgPath of
           (cfg', Some err) \<Rightarrow> Inl (Wrapf ''reading config from %q: %w'' [cfgPath] err)
         | (cfg', None) \<Rightarrow> Inr cfg')
      else Inr cfg)"

text \<open>Lines 154-168: the server mapping.\<close>

definition servers_stage ::
  "world \<Rightarrow> string list \<Rightarrow> Config \<times> event list \<Rightarrow> Config \<times> event list" where
  "servers_stage w targets = (\<lambda>(cfg, log).
     if length targets > 0 then
       (case range_targets w 0 targets ([], log @ [warn ''targets'']) of
          (servers, log') \<Rightarrow> (cfg\<lparr>Servers := servers\<rparr>, log'))
     else
       (case range_servers w (Servers cfg) ([], log) of
          (newServers, log') \<Rightarrow> (cfg\<lparr>Servers := newServers\<rparr>, log')))"

text \<open>Lines 169-187: the four scalar flags, in the order of the source.\<close>

definition cli_stage ::
  "string \<Rightarrow> int \<Rightarrow> duration \<Rightarrow> int \<Rightarrow> Config \<times> event list \<Rightarrow> Config \<times> event list" where
  "cli_stage iface monitoringPort interval dscp = (\<lambda>(cfg0, log0).
     let (cfg1, log1) =
           (if iface \<noteq> '''' \<and> iface \<noteq> Iface cfg0
            then (cfg0\<lparr>Iface := iface\<rparr>, log0 @ [warn ''iface''])
            else (cfg0, log0));
         (cfg2, log2) =
           (if monitoringPort \<noteq> 0 \<and> monitoringPort \<noteq> MonitoringPort cfg1
            then (cfg1\<lparr>MonitoringPort := monitoringPort\<rparr>, log1 @ [warn ''monitoringPort''])
            else (cfg1, log1));
         (cfg3, log3) =
           (if interval \<noteq> 0 \<and> interval \<noteq> Interval cfg2
            then (cfg2\<lparr>Interval := interval\<rparr>, log2 @ [warn ''interval''])
            else (cfg2, log2));
         (cfg4, log4) =
           (if dscp \<noteq> 0 \<and> dscp \<noteq> DSCP cfg3
            then (cfg3\<lparr>DSCP := dscp\<rparr>, log3 @ [warn ''dscp''])
            else (cfg3, log3))
     in (cfg4, log4))"

text \<open>
  The result is the outcome of the call and its events. A call that returns, returns
  Go's pair \<^verbatim>\<open>(*Config, error)\<close>, each component \<open>None\<close> when it is \<^verbatim>\<open>nil\<close>. When
  \<open>cfg\<close> is \<^verbatim>\<open>nil\<close> after line 153, the first access to a field of \<open>cfg\<close> panics: the
  assignment to \<^verbatim>\<open>cfg.Servers\<close> of line 156, after the warning of line 155, when there
  are targets, and the \<^verbatim>\<open>range cfg.Servers\<close> of line 163 otherwise.
\<close>

definition PrepareConfig ::
  "constants \<Rightarrow> world \<Rightarrow> string \<Rightarrow> string list \<Rightarrow> string \<Rightarrow> int \<Rightarrow> duration \<Rightarrow> int
     \<Rightarrow> (Config option \<times> error option) outcome \<times> event list" where
  "PrepareConfig k w cfgPath targets iface monitoringPort interval dscp =
     (case defaults_file_stage k w cfgPath of
        Inl err \<Rightarrow> (Returns (None, Some err), [])
      | Inr None \<Rightarrow>
          (NilPointerPanic, if length targets > 0 then [warn ''targets''] else [])
      | Inr (Some cfg0) \<Rightarrow>
          (case cli_stage iface monitoringPort interval dscp
                  (servers_stage w targets (cfg0, [])) of
             (cfg, log) \<Rightarrow>
               (case Validate k cfg of
                  Some err \<Rightarrow>
                    (Returns (None, Some (Wrapf ''validating config: %w'' [] err)), log)
                | None \<Rightarrow>
                    (Returns (Some cfg, None), log @ [Debugf ''config: %+v'' cfg]))))"

subsection \<open>The checks of the validator as the specification lists them\<close>



subsection \<open>Sample constants and environments\<close>

text \<open>
  Values on which the functions above are run: the constants with the empty string as
  the filter \<^verbatim>\<open>FilterNone\<close>, and an environment with a table of host names and two
  files: \<open>/etc/sptp.yaml\<close>, which declares an interface, a DSCP, an exchange timeout and
  a server mapping, and \<open>/etc/null.yaml\<close>, whose one document is the YAML null.
\<close>

definition sample_constants :: constants where
  "sample_constants =
     \<lparr> HWTIMESTAMP = ''hardware'', SWTIMESTAMP = ''software'',
       FilterNone = '''', FilterMean = ''mean'', FilterMedian = ''median'' \<rparr>"

definition sample_world :: "(string \<times> string list) list \<Rightarrow> (string \<times> int) list \<Rightarrow> world" where
  "sample_world dns file_servers =
     \<lparr> os_ReadFile = (\<lambda>path.
         if path = ''/etc/sptp.yaml'' then (''iface: eth1'', None)
         else if path = ''/etc/null.yaml'' then (''null'', None)
         else ('''', Some (Foreign ''no such file or directory''))),
       yaml_Unmarshal = (\<lambda>cData c.
         if cData = ''null'' then (None, None)
         else (Some (c\<lparr>Iface := ''eth1'', DSCP := 8, ExchangeTimeout := 200 * Millisecond,
                       Servers := file_servers\<rparr>), None)),
       net_ParseIP = (\<lambda>s. s \<in> set [''192.0.2.1'', ''10.0.0.1'', ''10.0.0.2'']),
       net_LookupHost = (\<lambda>name.
         case map_of dns name of
           Some addrs \<Rightarrow> (addrs, None)
         | None \<Rightarrow> ([], Some (Foreign ''no such host''))) \<rparr>"

definition distinct_dns :: "(string \<times> string list) list" where
  "distinct_dns = [(''host-a'', [''10.0.0.1'', ''10.0.0.9'']), (''host-b'', [''10.0.0.2'']),
                   (''empty-host'', [])]"

definition aliased_dns :: "(string \<times> string list) list" where
  "aliased_dns = [(''host-a'', [''10.0.0.1'']), (''host-b'', [''10.0.0.1''])]"

definition sample_config :: Config where
  "sample_config = (DefaultConfig sample_constants)\<lparr>Iface := ''eth0'', Servers := [(''192.0.2.1'', 0)]\<rparr>"

text \<open>The Config that the sample environment reads from its file.\<close>

definition sample_file_config :: "(string \<times> int) list \<Rightarrow> Config" where
  "sample_file_config file_servers =
     (DefaultConfig sample_constants)
       \<lparr>Iface := ''eth1'', DSCP := 8, ExchangeTimeout := 200 * Millisecond,
        Servers := file_servers\<rparr>"

subsection \<open>Every check of the validator but the one on the exchange timeout\<close>

definition other_checks_hold :: "constants \<Rightarrow> Config \<Rightarrow> bool" where
  "other_checks_hold k c \<longleftrightarrow>
     0 < Interval c \<and> 0 < AttemptsTXTS c \<and> 0 < TimeoutTXTS c
     \<and> 0 < MetricsAggregationWindow c \<and> 0 \<le> MonitoringPort c \<and> 0 \<le> DSCP c
     \<and> Servers c \<noteq> [] \<and> (Timestamping c = HWTIMESTAMP k \<or> Timestamping c = SWTIMESTAMP k)
     \<and> Iface c \<noteq> '''' \<and> MeasurementConfig_Validate k (Measurement c) = None"

subsection \<open>The Config that PrepareConfig validates\<close>

text \<open>
  The Config at line 188, after the server mapping and the four scalar flags have been
  laid over the Config of the defaults and file stage.
\<close>

definition overlay ::
  "world \<Rightarrow> string list \<Rightarrow> string \<Rightarrow> int \<Rightarrow> duration \<Rightarrow> int \<Rightarrow> Config \<Rightarrow> Config" where
  "overlay w targets iface monitoringPort interval dscp cfg0 =
     fst (cli_stage iface monitoringPort interval dscp (servers_stage w targets (cfg0, [])))"

section \<open>Properties of the validator\<close>

lemma Validate_None_iff:
  "Validate k c = None \<longleftrightarrow>
     other_checks_hold k c \<and> 0 < ExchangeTimeout c \<and> ExchangeTimeout c < Interval c"
  unfolding Validate_def other_checks_hold_def
  by (auto split: option.splits)

lemma Validate_exchange_error:
  "other_checks_hold k c \<Longrightarrow> ExchangeTimeout c \<le> 0 \<or> Interval c \<le> ExchangeTimeout c \<Longrightarrow>
   Validate k c =
     Some (Errorf ''exchangetimeout must be greater than zero but less than interval'' [])"
  unfolding Validate_def other_checks_hold_def
  by auto

lemma sample_config_other_checks:
  "other_checks_hold sample_constants (sample_config\<lparr>ExchangeTimeout := e\<rparr>)"
  by (simp add: other_checks_hold_def sample_config_def DefaultConfig_def sample_constants_def
        MeasurementConfig_Validate_def Second_def Millisecond_def Nanosecond_def)

lemma sample_config_Interval: "Interval (sample_config\<lparr>ExchangeTimeout := e\<rparr>) = 1000000000"
  by (simp add: sample_config_def DefaultConfig_def Second_def Millisecond_def Nanosecond_def)


lemma Validate_unfold:
  "Validate k c =
     (if Interval c \<le> 0 then
        Some (Errorf ''interval must be greater than zero'' [])
      else if AttemptsTXTS c \<le> 0 then
        Some (Errorf ''attemptstxts must be greater than zero'' [])
      else if TimeoutTXTS c \<le> 0 then
        Some (Errorf ''timeouttxts must be greater than zero'' [])
      else if MetricsAggregationWindow c \<le> 0 then
        Some (Errorf ''metricsaggregationwindow must be greater than zero'' [])
      else if MonitoringPort c < 0 then
        Some (Errorf ''monitoringport must be 0 or positive'' [])
      else if DSCP c < 0 then
        Some (Errorf ''dscp must be 0 or positive'' [])
      else if ExchangeTimeout c \<le> 0 \<or> ExchangeTimeout c \<ge> Interval c then
        Some (Errorf ''exchangetimeout must be greater than zero but less than interval'' [])
      else if Servers c = [] then
        Some (Errorf ''at least one server must be specified'' [])
      else if Timestamping c \<noteq> HWTIMESTAMP k \<and> Timestamping c \<noteq> SWTIMESTAMP k then
        Some (Errorf ''only %q and %q timestamping is supported'' [HWTIMESTAMP k, SWTIMESTAMP k])
      else if Iface c = '''' then
        Some (Errorf ''iface must be specified'' [])
      else if MeasurementConfig_Validate k (Measurement c) \<noteq> None then
        Some (Wrapf ''invalid measurement config: %w'' []
               (the (MeasurementConfig_Validate k (Measurement c))))
      else None)"
  unfolding Validate_def by (cases "MeasurementConfig_Validate k (Measurement c)") simp_all



text \<open>
  Claim C3. \<^verbatim>\<open>Config.Validate\<close> enforces both inequalities of
  \<open>0 < ExchangeTimeout < Interval\<close> strictly: a Config passes only if its exchange timeout
  is positive and less than its interval. A Config whose exchange timeout equals its
  interval fails validation, and so does every Config whose exchange timeout is its
  interval or more, or zero or less; when every other check holds, that failure is the
  one of the exchange timeout check, and a Config whose exchange timeout is one
  nanosecond less than its interval, or any positive value less than its interval,
  passes. "Otherwise valid" is read as: each of the ten other checks holds and the
  exchange timeout is positive (with an interval of one nanosecond, one nanosecond less
  is zero, which the lower inequality rejects).
\<close>

theorem Validate_exchange_timeout_boundary:
  "(ExchangeTimeout c = Interval c \<longrightarrow> Validate k c \<noteq> None)
   \<and> (ExchangeTimeout c \<le> 0 \<longrightarrow> Validate k c \<noteq> None)
   \<and> (other_checks_hold k c \<and> ExchangeTimeout c = Interval c \<longrightarrow>
        Validate k c =
          Some (Errorf ''exchangetimeout must be greater than zero but less than interval'' []))
   \<and> (other_checks_hold k c \<and> 0 < ExchangeTimeout c
        \<and> ExchangeTimeout c = Interval c - 1 * Nanosecond \<longrightarrow> Validate k c = None)
   \<and> (Interval c \<le> ExchangeTimeout c \<longrightarrow> Validate k c \<noteq> None)
   \<and> (Validate k c = None \<longrightarrow> 0 < ExchangeTimeout c \<and> ExchangeTimeout c < Interval c)
   \<and> (other_checks_hold k c \<and> (ExchangeTimeout c \<le> 0 \<or> Interval c \<le> ExchangeTimeout c) \<longrightarrow>
        Validate k c =
          Some (Errorf ''exchangetimeout must be greater than zero but less than interval'' []))
   \<and> (other_checks_hold k c \<and> 0 < ExchangeTimeout c \<and> ExchangeTimeout c < Interval c \<longrightarrow>
        Validate k c = None)"
proof -
  have upper: "ExchangeTimeout c = Interval c \<longrightarrow> Validate k c \<noteq> None"
    by (simp add: Validate_None_iff del: not_None_eq)
  have lower: "ExchangeTimeout c \<le> 0 \<longrightarrow> Validate k c \<noteq> None"
    by (simp add: Validate_None_iff del: not_None_eq)
  have at_bound: "other_checks_hold k c \<and> ExchangeTimeout c = Interval c \<longrightarrow>
        Validate k c =
          Some (Errorf ''exchangetimeout must be greater than zero but less than interval'' [])"
    by (simp add: Validate_exchange_error)
  have below: "other_checks_hold k c \<and> 0 < ExchangeTimeout c
        \<and> ExchangeTimeout c = Interval c - 1 * Nanosecond \<longrightarrow> Validate k c = None"
    by (simp add: Validate_None_iff Nanosecond_def)
  have above: "Interval c \<le> ExchangeTimeout c \<longrightarrow> Validate k c \<noteq> None"
    by (simp add: Validate_None_iff del: not_None_eq)
  have strict: "Validate k c = None \<longrightarrow> 0 < ExchangeTimeout c \<and> ExchangeTimeout c < Interval c"
    by (simp add: Validate_None_iff)
  have outside: "other_checks_hold k c
        \<and> (ExchangeTimeout c \<le> 0 \<or> Interval c \<le> ExchangeTimeout c) \<longrightarrow>
        Validate k c =
          Some (Errorf ''exchangetimeout must be greater than zero but less than interval'' [])"
    using Validate_exchange_error [of k c] by blast
  have inside: "other_checks_hold k c \<and> 0 < ExchangeTimeout c
        \<and> ExchangeTimeout c < Interval c \<longrightarrow> Validate k c = None"
    by (simp add: Validate_None_iff)
  from upper lower at_bound below above strict outside inside show ?thesis by blast
qed

text \<open>
  The sample Config has an interval of one second: an exchange timeout of one second
  fails, 999999999 nanoseconds pass, zero fails, five seconds fail.
\<close>

theorem Validate_exchange_timeout_boundary_witness:
  "Validate sample_constants (sample_config\<lparr>ExchangeTimeout := 1000000000\<rparr>) =
     Some (Errorf ''exchangetimeout must be greater than zero but less than interval'' [])
   \<and> Validate sample_constants (sample_config\<lparr>ExchangeTimeout := 999999999\<rparr>) = None
   \<and> Validate sample_constants (sample_config\<lparr>ExchangeTimeout := 0\<rparr>) \<noteq> None
   \<and> Validate sample_constants (sample_config\<lparr>ExchangeTimeout := 5000000000\<rparr>) =
     Some (Errorf ''exchangetimeout must be greater than zero but less than interval'' [])"
  using Validate_exchange_timeout_boundary
          [of "sample_config\<lparr>ExchangeTimeout := 1000000000\<rparr>" sample_constants]
        Validate_exchange_timeout_boundary
          [of "sample_config\<lparr>ExchangeTimeout := 999999999\<rparr>" sample_constants]
        Validate_exchange_timeout_boundary
          [of "sample_config\<lparr>ExchangeTimeout := 0\<rparr>" sample_constants]
        Validate_exchange_timeout_boundary
          [of "sample_config\<lparr>ExchangeTimeout := 5000000000\<rparr>" sample_constants]
        sample_config_other_checks sample_config_Interval
  by (simp add: Nanosecond_def)



section \<open>Properties of the default factory and of the address normalizer\<close>

text \<open>
  Claim C8. \<^verbatim>\<open>DefaultConfig\<close> returns a Config with a polling interval of one second, an
  exchange timeout of 100 milliseconds, a metrics aggregation window of 60 seconds, 10
  transmit-timestamp attempts, a per-attempt timeout of 50 milliseconds and hardware
  timestamping (the constant \<^verbatim>\<open>HWTIMESTAMP\<close>). The function reads and writes no state: it
  takes the package constants only, and every call yields the same fresh value.
\<close>

theorem DefaultConfig_values:
  "Interval (DefaultConfig k) = 1 * Second
   \<and> ExchangeTimeout (DefaultConfig k) = 100 * Millisecond
   \<and> MetricsAggregationWindow (DefaultConfig k) = 60 * Second
   \<and> AttemptsTXTS (DefaultConfig k) = 10
   \<and> TimeoutTXTS (DefaultConfig k) = 50 * Millisecond
   \<and> Timestamping (DefaultConfig k) = HWTIMESTAMP k
   \<and> Second = 1000000000 * Nanosecond \<and> Millisecond = 1000000 * Nanosecond \<and> Nanosecond = 1"
  by (simp add: DefaultConfig_def Second_def Millisecond_def Nanosecond_def)

text \<open>
  Claim C5. The address normalizer never fails: its result is an address, never an error.
  A string that parses as a literal address is returned unchanged and no name is looked
  up; otherwise the name is looked up once, and the result is the first address returned
  when the lookup succeeds with at least one address, and the original string when the
  lookup returns no address or fails.
\<close>

theorem addrToIPstr_cases:
  "(net_ParseIP w a \<longrightarrow> addrToIPstr w a = (a, []))
   \<and> (\<not> net_ParseIP w a \<longrightarrow>
        (\<forall>n ns. net_LookupHost w a = (n # ns, None) \<longrightarrow> addrToIPstr w a = (n, [LookupHost a]))
      \<and> (net_LookupHost w a = ([], None) \<longrightarrow> addrToIPstr w a = (a, [LookupHost a]))
      \<and> (\<forall>ns e. net_LookupHost w a = (ns, Some e) \<longrightarrow> addrToIPstr w a = (a, [LookupHost a])))"
  by (simp add: addrToIPstr_def)

text \<open>
  A literal address, a name with two addresses, a name with none and an unknown name.
\<close>

theorem addrToIPstr_cases_witness:
  "addrToIPstr (sample_world distinct_dns []) ''192.0.2.1'' = (''192.0.2.1'', [])
   \<and> addrToIPstr (sample_world distinct_dns []) ''host-a'' = (''10.0.0.1'', [LookupHost ''host-a''])
   \<and> addrToIPstr (sample_world distinct_dns []) ''empty-host''
        = (''empty-host'', [LookupHost ''empty-host''])
   \<and> addrToIPstr (sample_world distinct_dns []) ''nowhere'' = (''nowhere'', [LookupHost ''nowhere''])"
  using addrToIPstr_cases [of "sample_world distinct_dns []" "''192.0.2.1''"]
        addrToIPstr_cases [of "sample_world distinct_dns []" "''host-a''"]
        addrToIPstr_cases [of "sample_world distinct_dns []" "''empty-host''"]
        addrToIPstr_cases [of "sample_world distinct_dns []" "''nowhere''"]
  by (simp add: sample_world_def distinct_dns_def)

section \<open>Properties of the layered loader\<close>

lemma servers_stage_fst:
  "fst (servers_stage w targets (cfg, log)) =
     cfg\<lparr>Servers :=
       (if length targets > 0 then fst (range_targets w 0 targets ([], log @ [warn ''targets'']))
        else fst (range_servers w (Servers cfg) ([], log)))\<rparr>"
  by (simp add: servers_stage_def split: prod.split)

lemma cli_stage_Iface:
  "Iface (fst (cli_stage iface monitoringPort interval dscp (cfg, log))) =
     (if iface \<noteq> '''' \<and> iface \<noteq> Iface cfg then iface else Iface cfg)"
  by (simp add: cli_stage_def)

lemma cli_stage_MonitoringPort:
  "MonitoringPort (fst (cli_stage iface monitoringPort interval dscp (cfg, log))) =
     (if monitoringPort \<noteq> 0 \<and> monitoringPort \<noteq> MonitoringPort cfg
      then monitoringPort else MonitoringPort cfg)"
  by (simp add: cli_stage_def)

lemma cli_stage_Interval:
  "Interval (fst (cli_stage iface monitoringPort interval dscp (cfg, log))) =
     (if interval \<noteq> 0 \<and> interval \<noteq> Interval cfg then interval else Interval cfg)"
  by (simp add: cli_stage_def)

lemma cli_stage_DSCP:
  "DSCP (fst (cli_stage iface monitoringPort interval dscp (cfg, log))) =
     (if dscp \<noteq> 0 \<and> dscp \<noteq> DSCP cfg then dscp else DSCP cfg)"
  by (simp add: cli_stage_def)

lemma cli_stage_fst:
  "fst (cli_stage iface monitoringPort interval dscp (cfg, log)) =
     cfg\<lparr>Iface := (if iface \<noteq> '''' \<and> iface \<noteq> Iface cfg then iface else Iface cfg),
         MonitoringPort := (if monitoringPort \<noteq> 0 \<and> monitoringPort \<noteq> MonitoringPort cfg
                            then monitoringPort else MonitoringPort cfg),
         Interval := (if interval \<noteq> 0 \<and> interval \<noteq> Interval cfg then interval else Interval cfg),
         DSCP := (if dscp \<noteq> 0 \<and> dscp \<noteq> DSCP cfg then dscp else DSCP cfg)\<rparr>"
  by (simp add: cli_stage_def)

lemma overlay_eq:
  "overlay w targets iface monitoringPort interval dscp cfg0 =
     cfg0\<lparr>Servers :=
            (if length targets > 0 then fst (range_targets w 0 targets ([], [warn ''targets'']))
             else fst (range_servers w (Servers cfg0) ([], []))),
          Iface := (if iface \<noteq> '''' \<and> iface \<noteq> Iface cfg0 then iface else Iface cfg0),
          MonitoringPort := (if monitoringPort \<noteq> 0 \<and> monitoringPort \<noteq> MonitoringPort cfg0
                             then monitoringPort else MonitoringPort cfg0),
          Interval := (if interval \<noteq> 0 \<and> interval \<noteq> Interval cfg0 then interval else Interval cfg0),
          DSCP := (if dscp \<noteq> 0 \<and> dscp \<noteq> DSCP cfg0 then dscp else DSCP cfg0)\<rparr>"
proof -
  obtain cfg1 log1 where s: "servers_stage w targets (cfg0, []) = (cfg1, log1)"
    by (cases "servers_stage w targets (cfg0, [])")
  have c1: "cfg1 = cfg0\<lparr>Servers :=
            (if length targets > 0 then fst (range_targets w 0 targets ([], [warn ''targets'']))
             else fst (range_servers w (Servers cfg0) ([], [])))\<rparr>"
    using servers_stage_fst [of w targets cfg0 "[]"] s by simp
  show ?thesis
    unfolding overlay_def s cli_stage_fst by (simp add: c1)
qed

lemma PrepareConfig_eq:
  "fst (PrepareConfig k w cfgPath targets iface monitoringPort interval dscp) =
     (case defaults_file_stage k w cfgPath of
        Inl err \<Rightarrow> Returns (None, Some err)
      | Inr None \<Rightarrow> NilPointerPanic
      | Inr (Some cfg0) \<Rightarrow>
          (case Validate k (overlay w targets iface monitoringPort interval dscp cfg0) of
             Some err \<Rightarrow> Returns (None, Some (Wrapf ''validating config: %w'' [] err))
           | None \<Rightarrow>
               Returns (Some (overlay w targets iface monitoringPort interval dscp cfg0), None)))"
  by (simp add: PrepareConfig_def overlay_def split: sum.split prod.split option.split)

lemma PrepareConfig_success:
  assumes "fst (PrepareConfig k w cfgPath targets iface monitoringPort interval dscp) = Returns (Some cfg, None)"
  shows "\<exists>cfg0. defaults_file_stage k w cfgPath = Inr (Some cfg0)
           \<and> cfg = overlay w targets iface monitoringPort interval dscp cfg0
           \<and> Validate k cfg = None"
  using assms unfolding PrepareConfig_eq
  by (auto split: sum.splits option.splits)

subsection \<open>Runs of the sample environment\<close>

lemma sample_defaults_file_stage:
  "defaults_file_stage sample_constants (sample_world dns fs) ''/etc/sptp.yaml''
     = Inr (Some (sample_file_config fs))"
  by (simp add: defaults_file_stage_def ReadConfig_def sample_world_def sample_file_config_def)

lemma defaults_file_stage_no_path:
  "defaults_file_stage k w '''' = Inr (Some (DefaultConfig k))"
  by (simp add: defaults_file_stage_def)

lemma sample_file_missing:
  "ReadConfig sample_constants (sample_world dns fs) ''/nope''
     = (None, Some (Foreign ''no such file or directory''))"
  by (simp add: ReadConfig_def sample_world_def)

lemma sample_resolved:
  "addrToIPstr (sample_world distinct_dns fs) ''host-a'' = (''10.0.0.1'', [LookupHost ''host-a''])"
  "addrToIPstr (sample_world distinct_dns fs) ''host-b'' = (''10.0.0.2'', [LookupHost ''host-b''])"
  "addrToIPstr (sample_world aliased_dns fs) ''host-a'' = (''10.0.0.1'', [LookupHost ''host-a''])"
  "addrToIPstr (sample_world aliased_dns fs) ''host-b'' = (''10.0.0.1'', [LookupHost ''host-b''])"
  "addrToIPstr (sample_world dns fs) ''192.0.2.1'' = (''192.0.2.1'', [])"
  by (simp_all add: addrToIPstr_def sample_world_def distinct_dns_def aliased_dns_def)

lemma sample_valid:
  "ss \<noteq> [] \<Longrightarrow> 0 \<le> m \<Longrightarrow> i \<noteq> '''' \<Longrightarrow> v = 1000000000 \<or> v = 2000000000 \<Longrightarrow>
   Validate sample_constants
     ((sample_file_config fs)\<lparr>Servers := ss, Iface := i, MonitoringPort := m,
         Interval := v, DSCP := 8\<rparr>) = None"
  by (auto simp add: Validate_None_iff other_checks_hold_def sample_file_config_def
        DefaultConfig_def sample_constants_def MeasurementConfig_Validate_def Second_def
        Millisecond_def Nanosecond_def)

lemma sample_overlay_flags:
  "overlay (sample_world distinct_dns fs) [] ''eth0'' 4269 2000000000 8
          (sample_file_config [(''host-a'', 5), (''host-b'', 7)])
     = (sample_file_config [(''host-a'', 5), (''host-b'', 7)])
          \<lparr>Servers := [(''10.0.0.1'', 5), (''10.0.0.2'', 7)], Iface := ''eth0'',
           MonitoringPort := 4269, Interval := 2000000000, DSCP := 8\<rparr>"
  unfolding overlay_eq
  by (simp add: sample_resolved sample_file_config_def DefaultConfig_def Second_def
        Millisecond_def Nanosecond_def)

lemma sample_overlay_no_flags:
  "overlay (sample_world distinct_dns fs) [] '''' 0 0 0
          (sample_file_config [(''host-a'', 5), (''host-b'', 7)])
     = (sample_file_config [(''host-a'', 5), (''host-b'', 7)])
          \<lparr>Servers := [(''10.0.0.1'', 5), (''10.0.0.2'', 7)], Iface := ''eth1'',
           MonitoringPort := 0, Interval := 1000000000, DSCP := 8\<rparr>"
  unfolding overlay_eq
  by (simp add: sample_resolved sample_file_config_def DefaultConfig_def Second_def
        Millisecond_def Nanosecond_def)

lemma sample_run_flags:
  "fst (PrepareConfig sample_constants
          (sample_world distinct_dns [(''host-a'', 5), (''host-b'', 7)])
          ''/etc/sptp.yaml'' [] ''eth0'' 4269 2000000000 8)
     = Returns (Some ((sample_file_config [(''host-a'', 5), (''host-b'', 7)])
                \<lparr>Servers := [(''10.0.0.1'', 5), (''10.0.0.2'', 7)], Iface := ''eth0'',
                  MonitoringPort := 4269, Interval := 2000000000, DSCP := 8\<rparr>), None)"
  by (simp add: PrepareConfig_eq sample_defaults_file_stage sample_overlay_flags sample_valid)

lemma sample_run_no_flags:
  "fst (PrepareConfig sample_constants
          (sample_world distinct_dns [(''host-a'', 5), (''host-b'', 7)])
          ''/etc/sptp.yaml'' [] '''' 0 0 0)
     = Returns (Some ((sample_file_config [(''host-a'', 5), (''host-b'', 7)])
                \<lparr>Servers := [(''10.0.0.1'', 5), (''10.0.0.2'', 7)], Iface := ''eth1'',
                  MonitoringPort := 0, Interval := 1000000000, DSCP := 8\<rparr>), None)"
  by (simp add: PrepareConfig_eq sample_defaults_file_stage sample_overlay_no_flags sample_valid)

subsection \<open>The scalar flags\<close>

text \<open>
  Claim C1. In \<^verbatim>\<open>PrepareConfig\<close>, for each of the four scalar flags (\<open>iface\<close>,
  \<open>monitoringPort\<close>, \<open>interval\<close>, \<open>dscp\<close>): when the value of the flag is not the zero
  value of its type (not the empty string for \<open>iface\<close>) and differs from the value that
  the Config holds after the defaults and file stage, the returned Config holds the value
  of the flag; when the value of the flag is the zero value or equals the current value,
  the returned Config keeps the current value.
\<close>

theorem PrepareConfig_scalar_overrides:
  assumes "defaults_file_stage k w cfgPath = Inr (Some cfg0)"
    and "fst (PrepareConfig k w cfgPath targets iface monitoringPort interval dscp) = Returns (Some cfg, None)"
  shows "(iface \<noteq> '''' \<and> iface \<noteq> Iface cfg0 \<longrightarrow> Iface cfg = iface)
       \<and> (iface = '''' \<or> iface = Iface cfg0 \<longrightarrow> Iface cfg = Iface cfg0)
       \<and> (monitoringPort \<noteq> 0 \<and> monitoringPort \<noteq> MonitoringPort cfg0
            \<longrightarrow> MonitoringPort cfg = monitoringPort)
       \<and> (monitoringPort = 0 \<or> monitoringPort = MonitoringPort cfg0
            \<longrightarrow> MonitoringPort cfg = MonitoringPort cfg0)
       \<and> (interval \<noteq> 0 \<and> interval \<noteq> Interval cfg0 \<longrightarrow> Interval cfg = interval)
       \<and> (interval = 0 \<or> interval = Interval cfg0 \<longrightarrow> Interval cfg = Interval cfg0)
       \<and> (dscp \<noteq> 0 \<and> dscp \<noteq> DSCP cfg0 \<longrightarrow> DSCP cfg = dscp)
       \<and> (dscp = 0 \<or> dscp = DSCP cfg0 \<longrightarrow> DSCP cfg = DSCP cfg0)"
proof -
  from PrepareConfig_success [OF assms(2)] assms(1)
  have cfg: "cfg = overlay w targets iface monitoringPort interval dscp cfg0"
    by auto
  have i: "Iface cfg = (if iface \<noteq> '''' \<and> iface \<noteq> Iface cfg0 then iface else Iface cfg0)"
    unfolding cfg overlay_eq by simp
  have m: "MonitoringPort cfg =
      (if monitoringPort \<noteq> 0 \<and> monitoringPort \<noteq> MonitoringPort cfg0
       then monitoringPort else MonitoringPort cfg0)"
    unfolding cfg overlay_eq by simp
  have v: "Interval cfg = (if interval \<noteq> 0 \<and> interval \<noteq> Interval cfg0 then interval else Interval cfg0)"
    unfolding cfg overlay_eq by simp
  have d: "DSCP cfg = (if dscp \<noteq> 0 \<and> dscp \<noteq> DSCP cfg0 then dscp else DSCP cfg0)"
    unfolding cfg overlay_eq by simp
  show ?thesis
    unfolding i m v d by auto
qed

text \<open>
  With the sample file (\<open>eth1\<close>, port 0, one second, DSCP 8): the flags \<open>eth0\<close>, 4269,
  two seconds and 8 give \<open>eth0\<close>, 4269, two seconds and 8; no flag keeps the four values
  of the file.
\<close>

theorem PrepareConfig_scalar_overrides_witness:
  "Iface (sample_file_config [(''host-a'', 5), (''host-b'', 7)]) = ''eth1''
   \<and> MonitoringPort (sample_file_config [(''host-a'', 5), (''host-b'', 7)]) = 0
   \<and> Interval (sample_file_config [(''host-a'', 5), (''host-b'', 7)]) = 1000000000
   \<and> DSCP (sample_file_config [(''host-a'', 5), (''host-b'', 7)]) = 8
   \<and> (\<exists>cfg. fst (PrepareConfig sample_constants
               (sample_world distinct_dns [(''host-a'', 5), (''host-b'', 7)])
               ''/etc/sptp.yaml'' [] ''eth0'' 4269 2000000000 8) = Returns (Some cfg, None)
         \<and> Iface cfg = ''eth0'' \<and> MonitoringPort cfg = 4269
         \<and> Interval cfg = 2000000000 \<and> DSCP cfg = 8)
   \<and> (\<exists>cfg. fst (PrepareConfig sample_constants
               (sample_world distinct_dns [(''host-a'', 5), (''host-b'', 7)])
               ''/etc/sptp.yaml'' [] '''' 0 0 0) = Returns (Some cfg, None)
         \<and> Iface cfg = ''eth1'' \<and> MonitoringPort cfg = 0
         \<and> Interval cfg = 1000000000 \<and> DSCP cfg = 8)"
  using PrepareConfig_scalar_overrides [OF sample_defaults_file_stage sample_run_flags]
        PrepareConfig_scalar_overrides [OF sample_defaults_file_stage sample_run_no_flags]
  by (simp add: sample_run_flags sample_run_no_flags)

subsection \<open>The fields that the flags leave alone\<close>

text \<open>
  Claim C10. For every successful call of \<^verbatim>\<open>PrepareConfig\<close>, the fields Timestamping,
  ExchangeTimeout, FirstStepThreshold, Measurement, MetricsAggregationWindow,
  AttemptsTXTS, TimeoutTXTS and FreeRunning of the returned Config are those of the Config
  of the defaults and file stage: the returned Config differs from it at most in Servers,
  Iface, MonitoringPort, Interval and DSCP.
\<close>

theorem PrepareConfig_frame:
  assumes "defaults_file_stage k w cfgPath = Inr (Some cfg0)"
    and "fst (PrepareConfig k w cfgPath targets iface monitoringPort interval dscp) = Returns (Some cfg, None)"
  shows "Timestamping cfg = Timestamping cfg0
       \<and> ExchangeTimeout cfg = ExchangeTimeout cfg0
       \<and> FirstStepThreshold cfg = FirstStepThreshold cfg0
       \<and> Measurement cfg = Measurement cfg0
       \<and> MetricsAggregationWindow cfg = MetricsAggregationWindow cfg0
       \<and> AttemptsTXTS cfg = AttemptsTXTS cfg0
       \<and> TimeoutTXTS cfg = TimeoutTXTS cfg0
       \<and> FreeRunning cfg = FreeRunning cfg0
       \<and> cfg = cfg0\<lparr>Servers := Servers cfg, Iface := Iface cfg,
                      MonitoringPort := MonitoringPort cfg, Interval := Interval cfg,
                      DSCP := DSCP cfg\<rparr>"
proof -
  from PrepareConfig_success [OF assms(2)] assms(1)
  have cfg: "cfg = overlay w targets iface monitoringPort interval dscp cfg0"
    by auto
  show ?thesis
    unfolding cfg overlay_eq by simp
qed

text \<open>The eight fields of the sample file's Config after a run with all four flags.\<close>

theorem PrepareConfig_frame_witness:
  "\<exists>cfg. fst (PrepareConfig sample_constants
               (sample_world distinct_dns [(''host-a'', 5), (''host-b'', 7)])
               ''/etc/sptp.yaml'' [] ''eth0'' 4269 2000000000 8) = Returns (Some cfg, None)
      \<and> Timestamping cfg = ''hardware'' \<and> ExchangeTimeout cfg = 200000000
      \<and> FirstStepThreshold cfg = 0
      \<and> Measurement cfg = Measurement (DefaultConfig sample_constants)
      \<and> MetricsAggregationWindow cfg = 60000000000 \<and> AttemptsTXTS cfg = 10
      \<and> TimeoutTXTS cfg = 50000000 \<and> FreeRunning cfg = False"
  using PrepareConfig_frame [OF sample_defaults_file_stage sample_run_flags]
  by (simp add: sample_run_flags)
     (simp add: sample_file_config_def DefaultConfig_def sample_constants_def Second_def
        Millisecond_def Nanosecond_def)

subsection \<open>The outcome of a call\<close>

lemma ReadConfig_error_iff:
  "snd (ReadConfig k w path) = Some err \<longleftrightarrow>
     snd (os_ReadFile w path) = Some err
     \<or> (snd (os_ReadFile w path) = None
        \<and> snd (yaml_Unmarshal w (fst (os_ReadFile w path)) (DefaultConfig k)) = Some err)"
  by (auto simp: ReadConfig_def split: prod.splits option.splits)

lemma ReadConfig_no_partial:
  "snd (ReadConfig k w path) = Some err \<Longrightarrow> fst (ReadConfig k w path) = None"
  by (auto simp: ReadConfig_def split: prod.splits option.splits)

lemma defaults_file_stage_Inl_iff:
  "defaults_file_stage k w cfgPath = Inl e \<longleftrightarrow>
     cfgPath \<noteq> '''' \<and> (\<exists>err. snd (ReadConfig k w cfgPath) = Some err
        \<and> e = Wrapf ''reading config from %q: %w'' [cfgPath] err)"
  by (auto simp: defaults_file_stage_def split: prod.splits option.splits)

lemma defaults_file_stage_nil_iff:
  "defaults_file_stage k w cfgPath = Inr None \<longleftrightarrow>
     cfgPath \<noteq> '''' \<and> ReadConfig k w cfgPath = (None, None)"
  by (auto simp: defaults_file_stage_def split: prod.splits option.splits)

text \<open>
  What a call of \<^verbatim>\<open>PrepareConfig\<close> does, for every input. It panics exactly when a path
  is given and \<^verbatim>\<open>ReadConfig\<close> returns \<^verbatim>\<open>nil, nil\<close>. When it returns, it returns a Config
  that passes \<^verbatim>\<open>Config.Validate\<close> together with no error, or no Config together with one
  error. A failure to read the file and a failure to parse it make it return the
  library's error wrapped by \<^verbatim>\<open>reading config from %q: %w\<close> with the path; a failure of
  the validation makes it return the validator's error wrapped by
  \<^verbatim>\<open>validating config: %w\<close>, and a Config that passes the validation is returned.
\<close>

lemma PrepareConfig_outcome:
  "(fst (PrepareConfig k w cfgPath targets iface monitoringPort interval dscp) = NilPointerPanic
      \<longleftrightarrow> cfgPath \<noteq> '''' \<and> ReadConfig k w cfgPath = (None, None))
   \<and> (\<forall>r. fst (PrepareConfig k w cfgPath targets iface monitoringPort interval dscp) = Returns r
        \<longrightarrow> (\<exists>cfg. r = (Some cfg, None) \<and> Validate k cfg = None)
            \<or> (\<exists>e. r = (None, Some e)))
   \<and> (cfgPath \<noteq> '''' \<and> snd (os_ReadFile w cfgPath) = Some rerr \<longrightarrow>
        fst (PrepareConfig k w cfgPath targets iface monitoringPort interval dscp)
          = Returns (None, Some (Wrapf ''reading config from %q: %w'' [cfgPath] rerr)))
   \<and> (cfgPath \<noteq> '''' \<and> snd (os_ReadFile w cfgPath) = None
        \<and> snd (yaml_Unmarshal w (fst (os_ReadFile w cfgPath)) (DefaultConfig k)) = Some perr \<longrightarrow>
        fst (PrepareConfig k w cfgPath targets iface monitoringPort interval dscp)
          = Returns (None, Some (Wrapf ''reading config from %q: %w'' [cfgPath] perr)))
   \<and> (defaults_file_stage k w cfgPath = Inr (Some cfg0)
        \<and> Validate k (overlay w targets iface monitoringPort interval dscp cfg0) = Some verr \<longrightarrow>
        fst (PrepareConfig k w cfgPath targets iface monitoringPort interval dscp)
          = Returns (None, Some (Wrapf ''validating config: %w'' [] verr)))
   \<and> (defaults_file_stage k w cfgPath = Inr (Some cfg0)
        \<and> Validate k (overlay w targets iface monitoringPort interval dscp cfg0) = None \<longrightarrow>
        fst (PrepareConfig k w cfgPath targets iface monitoringPort interval dscp)
          = Returns (Some (overlay w targets iface monitoringPort interval dscp cfg0), None))"
proof -
  let ?r = "fst (PrepareConfig k w cfgPath targets iface monitoringPort interval dscp)"
  have panic: "?r = NilPointerPanic \<longleftrightarrow> cfgPath \<noteq> '''' \<and> ReadConfig k w cfgPath = (None, None)"
    unfolding PrepareConfig_eq defaults_file_stage_nil_iff [symmetric]
    by (simp split: sum.split option.split)
  have shape: "(\<exists>cfg. r = (Some cfg, None) \<and> Validate k cfg = None) \<or> (\<exists>e. r = (None, Some e))"
    if "?r = Returns r" for r
    using that unfolding PrepareConfig_eq
    by (auto split: sum.splits option.splits)
  have stage: "?r = Returns (None, Some (Wrapf ''reading config from %q: %w'' [cfgPath] e))"
    if "cfgPath \<noteq> ''''" and "snd (ReadConfig k w cfgPath) = Some e" for e
  proof -
    from that have "defaults_file_stage k w cfgPath
        = Inl (Wrapf ''reading config from %q: %w'' [cfgPath] e)"
      unfolding defaults_file_stage_Inl_iff by simp
    then show ?thesis
      unfolding PrepareConfig_eq by simp
  qed
  have rd: "cfgPath \<noteq> '''' \<and> snd (os_ReadFile w cfgPath) = Some rerr \<longrightarrow>
        ?r = Returns (None, Some (Wrapf ''reading config from %q: %w'' [cfgPath] rerr))"
    using stage [of rerr] by (simp add: ReadConfig_error_iff)
  have parse: "cfgPath \<noteq> '''' \<and> snd (os_ReadFile w cfgPath) = None
        \<and> snd (yaml_Unmarshal w (fst (os_ReadFile w cfgPath)) (DefaultConfig k)) = Some perr \<longrightarrow>
        ?r = Returns (None, Some (Wrapf ''reading config from %q: %w'' [cfgPath] perr))"
    using stage [of perr] by (simp add: ReadConfig_error_iff)
  have invalid: "defaults_file_stage k w cfgPath = Inr (Some cfg0)
        \<and> Validate k (overlay w targets iface monitoringPort interval dscp cfg0) = Some verr \<longrightarrow>
        ?r = Returns (None, Some (Wrapf ''validating config: %w'' [] verr))"
    unfolding PrepareConfig_eq by simp
  have valid: "defaults_file_stage k w cfgPath = Inr (Some cfg0)
        \<and> Validate k (overlay w targets iface monitoringPort interval dscp cfg0) = None \<longrightarrow>
        ?r = Returns (Some (overlay w targets iface monitoringPort interval dscp cfg0), None)"
    unfolding PrepareConfig_eq by simp
  from panic shape rd parse invalid valid show ?thesis by blast
qed

lemma sample_no_servers:
  "Validate sample_constants (overlay (sample_world dns fs) [] ''eth0'' 0 0 0
       (DefaultConfig sample_constants))
     = Some (Errorf ''at least one server must be specified'' [])"
  unfolding overlay_eq Validate_unfold
  by (simp add: DefaultConfig_def Second_def Millisecond_def Nanosecond_def)

text \<open>
  Three runs that return: one that succeeds, one on a path that is not there and one
  without servers.
\<close>

lemma sample_run_no_servers:
  "fst (PrepareConfig sample_constants (sample_world dns fs) '''' [] ''eth0'' 0 0 0)
     = Returns (None, Some (Wrapf ''validating config: %w'' []
                      (Errorf ''at least one server must be specified'' [])))"
  by (simp add: PrepareConfig_eq defaults_file_stage_no_path sample_no_servers)

lemma sample_run_file_missing:
  "fst (PrepareConfig sample_constants (sample_world dns fs) ''/nope'' ts i m v d)
     = Returns (None, Some (Wrapf ''reading config from %q: %w'' [''/nope'']
                      (Foreign ''no such file or directory'')))"
  by (simp add: PrepareConfig_eq defaults_file_stage_def sample_file_missing)

text \<open>The run on the file whose document is the YAML null.\<close>

lemma sample_ReadFile_null:
  "os_ReadFile (sample_world dns fs) ''/etc/null.yaml'' = (''null'', None)"
  by (simp add: sample_world_def)

lemma sample_Unmarshal_null:
  "yaml_Unmarshal (sample_world dns fs) ''null'' c = (None, None)"
  by (simp add: sample_world_def)

lemma sample_ReadConfig_null:
  "ReadConfig sample_constants (sample_world dns fs) ''/etc/null.yaml'' = (None, None)"
  by (simp add: ReadConfig_def sample_ReadFile_null sample_Unmarshal_null)

lemma sample_stage_null:
  "defaults_file_stage sample_constants (sample_world dns fs) ''/etc/null.yaml'' = Inr None"
  by (simp add: defaults_file_stage_nil_iff sample_ReadConfig_null)

text \<open>
  Claim C7 says that \<^verbatim>\<open>PrepareConfig\<close>, for every input, returns a valid Config with no
  error or no Config with one error. The code does not do so on a configuration file
  whose document is the YAML null: the file is read and parsed without an error,
  \<^verbatim>\<open>ReadConfig\<close> returns \<^verbatim>\<open>nil, nil\<close>, and \<^verbatim>\<open>PrepareConfig\<close>, which tests only the error,
  dereferences the nil Config and panics: at line 163 without targets, and at line 156,
  after the warning about the targets, with targets. It returns neither a Config nor an
  error.
\<close>

theorem PrepareConfig_null_document:
  "os_ReadFile (sample_world distinct_dns []) ''/etc/null.yaml'' = (''null'', None)
   \<and> yaml_Unmarshal (sample_world distinct_dns []) ''null'' (DefaultConfig sample_constants)
       = (None, None)
   \<and> ReadConfig sample_constants (sample_world distinct_dns []) ''/etc/null.yaml'' = (None, None)
   \<and> PrepareConfig sample_constants (sample_world distinct_dns []) ''/etc/null.yaml''
         [] ''eth0'' 0 0 0 = (NilPointerPanic, [])
   \<and> PrepareConfig sample_constants (sample_world distinct_dns []) ''/etc/null.yaml''
         [''192.0.2.1''] ''eth0'' 0 0 0 = (NilPointerPanic, [warn ''targets''])"
  by (simp add: PrepareConfig_def sample_stage_null sample_ReadConfig_null
        sample_ReadFile_null sample_Unmarshal_null)

subsection \<open>The scenario of one literal target and an interface\<close>

lemma scenario_overlay:
  assumes "net_ParseIP w ''192.0.2.1''"
  shows "overlay w [''192.0.2.1''] ''eth0'' 0 0 0 (DefaultConfig k)
           = (DefaultConfig k)\<lparr>Servers := [(''192.0.2.1'', 0)], Iface := ''eth0''\<rparr>"
  unfolding overlay_eq using assms
  by (simp add: addrToIPstr_def DefaultConfig_def)

lemma scenario_other_checks:
  "other_checks_hold k ((DefaultConfig k)\<lparr>Servers := [(''192.0.2.1'', 0)], Iface := ''eth0''\<rparr>)
     \<longleftrightarrow> FilterNone k = '''' \<or> FilterMean k = '''' \<or> FilterMedian k = ''''"
  by (auto simp add: other_checks_hold_def DefaultConfig_def MeasurementConfig_Validate_def
        Second_def Millisecond_def Nanosecond_def)

text \<open>
  Claim C9. \<^verbatim>\<open>PrepareConfig\<close> with an empty file path, the targets \<open>[''192.0.2.1'']\<close>, the
  interface \<open>eth0\<close>, monitoring port 0, interval 0 and DSCP 0 succeeds. The Config it
  returns has the servers \<open>{''192.0.2.1'': 0}\<close>, the interface \<open>eth0\<close>, an interval of
  one second and an exchange timeout of 100 milliseconds, and passes the validation.
  Two facts about what lies outside the file are assumed: \<^verbatim>\<open>net.ParseIP\<close> accepts the
  literal \<open>192.0.2.1\<close>, and the empty string, which is the filter of the default
  measurement settings, is one of the three filter constants.
\<close>

theorem PrepareConfig_scenario:
  assumes "net_ParseIP w ''192.0.2.1''"
    and "FilterNone k = '''' \<or> FilterMean k = '''' \<or> FilterMedian k = ''''"
  shows "\<exists>cfg. fst (PrepareConfig k w '''' [''192.0.2.1''] ''eth0'' 0 0 0) = Returns (Some cfg, None)
           \<and> Servers cfg = [(''192.0.2.1'', 0)]
           \<and> Iface cfg = ''eth0''
           \<and> Interval cfg = 1 * Second
           \<and> ExchangeTimeout cfg = 100 * Millisecond
           \<and> Validate k cfg = None
           \<and> cfg = (DefaultConfig k)\<lparr>Servers := [(''192.0.2.1'', 0)], Iface := ''eth0''\<rparr>"
proof -
  let ?cfg = "(DefaultConfig k)\<lparr>Servers := [(''192.0.2.1'', 0)], Iface := ''eth0''\<rparr>"
  have valid: "Validate k ?cfg = None"
    unfolding Validate_None_iff scenario_other_checks using assms(2)
    by (simp add: DefaultConfig_def Second_def Millisecond_def Nanosecond_def)
  have run: "fst (PrepareConfig k w '''' [''192.0.2.1''] ''eth0'' 0 0 0) = Returns (Some ?cfg, None)"
    by (simp add: PrepareConfig_eq defaults_file_stage_no_path scenario_overlay [OF assms(1)] valid)
  have fields: "Servers ?cfg = [(''192.0.2.1'', 0)] \<and> Iface ?cfg = ''eth0''
      \<and> Interval ?cfg = 1 * Second \<and> ExchangeTimeout ?cfg = 100 * Millisecond"
    by (simp add: DefaultConfig_def)
  from run valid fields show ?thesis by blast
qed

text \<open>
  Without the second assumption the same call fails on the measurement settings of the
  defaults.
\<close>

lemma scenario_needs_empty_filter:
  assumes "net_ParseIP w ''192.0.2.1''"
    and "FilterNone k \<noteq> ''''" and "FilterMean k \<noteq> ''''" and "FilterMedian k \<noteq> ''''"
  shows "fst (PrepareConfig k w '''' [''192.0.2.1''] ''eth0'' 0 0 0)
     = Returns (None, Some (Wrapf ''validating config: %w'' []
         (Wrapf ''invalid measurement config: %w'' []
           (Errorf ''path_delay_filter must be either %q, %q or %q''
              [FilterNone k, FilterMean k, FilterMedian k]))))"
proof -
  let ?cfg = "(DefaultConfig k)\<lparr>Servers := [(''192.0.2.1'', 0)], Iface := ''eth0''\<rparr>"
  have "Validate k ?cfg = Some (Wrapf ''invalid measurement config: %w'' []
           (Errorf ''path_delay_filter must be either %q, %q or %q''
              [FilterNone k, FilterMean k, FilterMedian k]))"
    unfolding Validate_unfold using assms(2-4)
    by (simp add: DefaultConfig_def MeasurementConfig_Validate_def Second_def Millisecond_def
          Nanosecond_def)
  then show ?thesis
    by (simp add: PrepareConfig_eq defaults_file_stage_no_path scenario_overlay [OF assms(1)])
qed

lemma sample_ParseIP: "net_ParseIP (sample_world dns fs) ''192.0.2.1''"
  by (simp add: sample_world_def)

lemma sample_FilterNone: "FilterNone sample_constants = ''''"
  by (simp add: sample_constants_def)

text \<open>The scenario in the sample environment.\<close>

theorem PrepareConfig_scenario_witness:
  "fst (PrepareConfig sample_constants (sample_world distinct_dns []) ''''
          [''192.0.2.1''] ''eth0'' 0 0 0)
     = Returns (Some ((DefaultConfig sample_constants)
                \<lparr>Servers := [(''192.0.2.1'', 0)], Iface := ''eth0''\<rparr>), None)
   \<and> Validate sample_constants
        ((DefaultConfig sample_constants)\<lparr>Servers := [(''192.0.2.1'', 0)], Iface := ''eth0''\<rparr>)
       = None"
  using PrepareConfig_scenario [of "sample_world distinct_dns []" sample_constants,
          OF sample_ParseIP] sample_FilterNone
  by auto

subsection \<open>The server mapping built from the targets\<close>

lemma range_targets_Cons:
  "range_targets w i (t # ts) (s, l) =
     range_targets w (i + 1) ts (AList.update (resolved w t) i s, l @ snd (addrToIPstr w t))"
  by (simp add: resolved_def split: prod.split)

lemma range_targets_keys:
  "fst ` set (fst (range_targets w i ts (s, l))) = fst ` set s \<union> resolved w ` set ts"
proof (induction ts arbitrary: i s l)
  case Nil
  show ?case by simp
next
  case (Cons t ts)
  show ?case
    unfolding range_targets_Cons Cons.IH by (simp add: dom_update)
qed

lemma range_targets_distinct:
  "distinct (map fst s) \<Longrightarrow> distinct (map fst (fst (range_targets w i ts (s, l))))"
proof (induction ts arbitrary: i s l)
  case Nil
  then show ?case by simp
next
  case (Cons t ts)
  from Cons.prems have "distinct (map fst (AList.update (resolved w t) i s))"
    by (rule distinct_update)
  then show ?case
    unfolding range_targets_Cons by (rule Cons.IH)
qed

lemma range_targets_untouched:
  "x \<notin> resolved w ` set ts \<Longrightarrow> map_of (fst (range_targets w i ts (s, l))) x = map_of s x"
proof (induction ts arbitrary: i s l)
  case Nil
  show ?case by simp
next
  case (Cons t ts)
  from Cons.prems have ne: "x \<noteq> resolved w t" and rest: "x \<notin> resolved w ` set ts"
    by auto
  show ?case
    unfolding range_targets_Cons Cons.IH [OF rest] using ne by (simp add: update_conv')
qed

lemma range_targets_last_wins:
  assumes "j < length ts"
    and "\<forall>j'. j < j' \<and> j' < length ts \<longrightarrow> resolved w (ts ! j') \<noteq> resolved w (ts ! j)"
  shows "map_of (fst (range_targets w i ts (s, l))) (resolved w (ts ! j)) = Some (i + int j)"
  using assms
proof (induction ts arbitrary: i s l j)
  case Nil
  then show ?case by simp
next
  case (Cons t ts)
  show ?case
  proof (cases j)
    case 0
    have "resolved w t \<notin> resolved w ` set ts"
    proof
      assume "resolved w t \<in> resolved w ` set ts"
      then obtain n where n: "n < length ts" "resolved w (ts ! n) = resolved w t"
        by (auto simp: in_set_conv_nth)
      from Cons.prems(2) [rule_format, of "Suc n"] n 0 show False by simp
    qed
    then have "map_of (fst (range_targets w (i + 1) ts
                  (AList.update (resolved w t) i s, l @ snd (addrToIPstr w t)))) (resolved w t)
               = map_of (AList.update (resolved w t) i s) (resolved w t)"
      by (rule range_targets_untouched)
    with 0 show ?thesis
      unfolding range_targets_Cons by (simp add: update_conv')
  next
    case (Suc n)
    with Cons.prems have n: "n < length ts" by simp
    have later: "\<forall>j'. n < j' \<and> j' < length ts \<longrightarrow> resolved w (ts ! j') \<noteq> resolved w (ts ! n)"
    proof (intro allI impI)
      fix j' assume "n < j' \<and> j' < length ts"
      with Cons.prems(2) [rule_format, of "Suc j'"] Suc
      show "resolved w (ts ! j') \<noteq> resolved w (ts ! n)" by simp
    qed
    from Cons.IH [OF n later] Suc show ?thesis
      unfolding range_targets_Cons by simp
  qed
qed

lemma overlay_Servers_targets:
  "targets \<noteq> [] \<Longrightarrow>
   Servers (overlay w targets iface monitoringPort interval dscp cfg0)
     = fst (range_targets w 0 targets ([], [warn ''targets'']))"
  unfolding overlay_eq by simp

text \<open>
  Claim C2, as amended. For every non-empty list of targets, \<^verbatim>\<open>PrepareConfig\<close> discards
  the server mapping of the defaults and file stage and builds the mapping from the list
  alone: its keys are exactly the normalized addresses of the listed identifiers, and
  each key maps to the zero-based position of the last identifier of the list that
  normalizes to it. When the normalized addresses are pairwise distinct, the normalized
  address of every identifier maps to the position of that identifier; for the targets
  \<open>[a, b]\<close> with different normalized addresses the mapping is exactly
  \<open>{resolved a: 0, resolved b: 1}\<close>. The mapping is the same for every file, path and
  scalar flag.
\<close>

theorem PrepareConfig_targets:
  assumes "targets \<noteq> []"
    and "fst (PrepareConfig k w cfgPath targets iface monitoringPort interval dscp) = Returns (Some cfg, None)"
  shows "fst ` set (Servers cfg) = resolved w ` set targets
       \<and> distinct (map fst (Servers cfg))
       \<and> (\<forall>j. j < length targets
              \<and> (\<forall>j'. j < j' \<and> j' < length targets
                     \<longrightarrow> resolved w (targets ! j') \<noteq> resolved w (targets ! j))
            \<longrightarrow> map_of (Servers cfg) (resolved w (targets ! j)) = Some (int j))
       \<and> (distinct (map (resolved w) targets)
            \<longrightarrow> (\<forall>j. j < length targets
                   \<longrightarrow> map_of (Servers cfg) (resolved w (targets ! j)) = Some (int j)))
       \<and> (\<forall>a b. targets = [a, b] \<and> resolved w a \<noteq> resolved w b
            \<longrightarrow> Servers cfg = [(resolved w a, 0), (resolved w b, 1)])
       \<and> (fst (PrepareConfig k' w cfgPath' targets iface' monitoringPort' interval' dscp')
             = Returns (Some cfg', None) \<longrightarrow> Servers cfg' = Servers cfg)"
proof -
  from PrepareConfig_success [OF assms(2)]
  obtain cfg0 where cfg: "cfg = overlay w targets iface monitoringPort interval dscp cfg0"
    by blast
  have servers: "Servers cfg = fst (range_targets w 0 targets ([], [warn ''targets'']))"
    unfolding cfg by (rule overlay_Servers_targets [OF assms(1)])
  have keys: "fst ` set (Servers cfg) = resolved w ` set targets"
    unfolding servers range_targets_keys by simp
  have dist: "distinct (map fst (Servers cfg))"
    unfolding servers by (rule range_targets_distinct) simp
  have last: "map_of (Servers cfg) (resolved w (targets ! j)) = Some (int j)"
    if "j < length targets"
      and "\<forall>j'. j < j' \<and> j' < length targets
              \<longrightarrow> resolved w (targets ! j') \<noteq> resolved w (targets ! j)" for j
    unfolding servers using range_targets_last_wins [OF that, of 0] by simp
  have inj: "map_of (Servers cfg) (resolved w (targets ! j)) = Some (int j)"
    if d: "distinct (map (resolved w) targets)" and j: "j < length targets" for j
  proof (rule last [OF j], intro allI impI)
    fix j' assume j': "j < j' \<and> j' < length targets"
    with j nth_eq_iff_index_eq [OF d, of j' j]
    show "resolved w (targets ! j') \<noteq> resolved w (targets ! j)" by simp
  qed
  have two: "Servers cfg = [(resolved w a, 0), (resolved w b, 1)]"
    if "targets = [a, b]" and "resolved w a \<noteq> resolved w b" for a b
    unfolding servers using that by (simp add: range_targets_Cons del: range_targets.simps(2))
  have indep: "Servers cfg' = Servers cfg"
    if "fst (PrepareConfig k' w cfgPath' targets iface' monitoringPort' interval' dscp')
          = Returns (Some cfg', None)"
  proof -
    from PrepareConfig_success [OF that]
    obtain cfg0' where "cfg' = overlay w targets iface' monitoringPort' interval' dscp' cfg0'"
      by blast
    then show ?thesis
      unfolding servers by (simp add: overlay_Servers_targets [OF assms(1)])
  qed
  from keys dist last inj two indep show ?thesis by blast
qed

text \<open>Runs with two targets: two names of one address, and two names of two addresses.\<close>

lemma sample_overlay_aliased_targets:
  "overlay (sample_world aliased_dns fs) [''host-a'', ''host-b''] ''eth0'' 0 0 0
          (DefaultConfig sample_constants)
     = (DefaultConfig sample_constants)\<lparr>Servers := [(''10.0.0.1'', 1)], Iface := ''eth0''\<rparr>"
  unfolding overlay_eq
  by (simp add: range_targets_Cons resolved_def sample_resolved DefaultConfig_def)

lemma sample_overlay_distinct_targets:
  "overlay (sample_world distinct_dns fs) [''host-a'', ''host-b''] ''eth0'' 0 0 0
          (sample_file_config fs)
     = (sample_file_config fs)\<lparr>Servers := [(''10.0.0.1'', 0), (''10.0.0.2'', 1)], Iface := ''eth0'',
           MonitoringPort := 0, Interval := 1000000000, DSCP := 8\<rparr>"
  unfolding overlay_eq
  by (simp add: range_targets_Cons resolved_def sample_resolved sample_file_config_def
        DefaultConfig_def Second_def Millisecond_def Nanosecond_def)

lemma sample_default_valid:
  "ss \<noteq> [] \<Longrightarrow>
   Validate sample_constants ((DefaultConfig sample_constants)\<lparr>Servers := ss, Iface := ''eth0''\<rparr>)
     = None"
  by (simp add: Validate_None_iff other_checks_hold_def DefaultConfig_def sample_constants_def
        MeasurementConfig_Validate_def Second_def Millisecond_def Nanosecond_def)

lemma sample_run_targets:
  "fst (PrepareConfig sample_constants
          (sample_world distinct_dns [(''192.0.2.1'', 3)]) ''/etc/sptp.yaml''
          [''host-a'', ''host-b''] ''eth0'' 0 0 0)
     = Returns (Some ((sample_file_config [(''192.0.2.1'', 3)])
           \<lparr>Servers := [(''10.0.0.1'', 0), (''10.0.0.2'', 1)], Iface := ''eth0'',
           MonitoringPort := 0, Interval := 1000000000, DSCP := 8\<rparr>), None)"
  by (simp add: PrepareConfig_eq sample_defaults_file_stage sample_overlay_distinct_targets
        sample_valid)

text \<open>
  Claim C2 as stated fails when two identifiers normalize to the same address: for the
  targets \<open>[host-a, host-b]\<close>, both resolved to \<open>10.0.0.1\<close>, the mapping has the single
  entry \<open>10.0.0.1: 1\<close>, so the normalized address of \<open>host-a\<close> is not mapped to the
  position 0 of \<open>host-a\<close>.
\<close>

theorem PrepareConfig_targets_same_address:
  "fst (PrepareConfig sample_constants (sample_world aliased_dns []) ''''
          [''host-a'', ''host-b''] ''eth0'' 0 0 0)
     = Returns (Some ((DefaultConfig sample_constants)\<lparr>Servers := [(''10.0.0.1'', 1)], Iface := ''eth0''\<rparr>),
        None)
   \<and> resolved (sample_world aliased_dns []) ''host-a'' = ''10.0.0.1''
   \<and> resolved (sample_world aliased_dns []) ''host-b'' = ''10.0.0.1''
   \<and> map_of [(''10.0.0.1'', 1 :: int)] (resolved (sample_world aliased_dns []) ''host-a'') \<noteq> Some 0
   \<and> length [(''10.0.0.1'', 1 :: int)] \<noteq> length [''host-a'', ''host-b'']"
  by (simp add: PrepareConfig_eq defaults_file_stage_no_path sample_overlay_aliased_targets
        sample_default_valid resolved_def sample_resolved)

text \<open>
  With two addresses the file's entry \<open>192.0.2.1: 3\<close> is gone and the two targets have
  the priorities 0 and 1.
\<close>

theorem PrepareConfig_targets_witness:
  "resolved (sample_world distinct_dns [(''192.0.2.1'', 3)]) ''host-a'' = ''10.0.0.1''
   \<and> resolved (sample_world distinct_dns [(''192.0.2.1'', 3)]) ''host-b'' = ''10.0.0.2''
   \<and> Servers (sample_file_config [(''192.0.2.1'', 3)]) = [(''192.0.2.1'', 3)]
   \<and> (\<exists>cfg. fst (PrepareConfig sample_constants
          (sample_world distinct_dns [(''192.0.2.1'', 3)]) ''/etc/sptp.yaml''
          [''host-a'', ''host-b''] ''eth0'' 0 0 0) = Returns (Some cfg, None)
        \<and> Servers cfg = [(''10.0.0.1'', 0), (''10.0.0.2'', 1)]
        \<and> map_of (Servers cfg) ''10.0.0.1'' = Some 0
        \<and> map_of (Servers cfg) ''10.0.0.2'' = Some 1
        \<and> map_of (Servers cfg) ''192.0.2.1'' = None)"
  using PrepareConfig_targets [where targets = "[''host-a'', ''host-b'']", OF _ sample_run_targets]
  by (simp add: sample_run_targets resolved_def sample_resolved sample_file_config_def)

subsection \<open>The server mapping kept from the file\<close>

lemma update_fresh_key:
  "k \<notin> fst ` set al \<Longrightarrow> AList.update k v al = al @ [(k, v)]"
  by (induction al) auto

lemma set_update_subset:
  "set (AList.update k v al) \<subseteq> insert (k, v) (set al)"
  by (induction al) auto

lemma range_servers_Cons:
  "range_servers w ((t, i) # rest) (s, l) =
     range_servers w rest (AList.update (resolved w t) i s, l @ snd (addrToIPstr w t))"
  by (simp add: resolved_def split: prod.split)

lemma range_servers_keys:
  "fst ` set (fst (range_servers w xs (s, l))) = fst ` set s \<union> resolved w ` fst ` set xs"
proof (induction xs arbitrary: s l)
  case Nil
  show ?case by simp
next
  case (Cons x xs)
  obtain t i where x: "x = (t, i)" by (cases x)
  show ?case
    unfolding x range_servers_Cons Cons.IH by (simp add: dom_update)
qed

lemma range_servers_distinct:
  "distinct (map fst s) \<Longrightarrow> distinct (map fst (fst (range_servers w xs (s, l))))"
proof (induction xs arbitrary: s l)
  case Nil
  then show ?case by simp
next
  case (Cons x xs)
  obtain t i where x: "x = (t, i)" by (cases x)
  from Cons.prems have "distinct (map fst (AList.update (resolved w t) i s))"
    by (rule distinct_update)
  then show ?case
    unfolding x range_servers_Cons by (rule Cons.IH)
qed

lemma range_servers_origin:
  "(a, p) \<in> set (fst (range_servers w xs (s, l))) \<Longrightarrow>
   (a, p) \<in> set s \<or> (\<exists>t. (t, p) \<in> set xs \<and> resolved w t = a)"
proof (induction xs arbitrary: s l)
  case Nil
  then show ?case by simp
next
  case (Cons x xs)
  obtain t i where x: "x = (t, i)" by (cases x)
  from Cons.prems have "(a, p) \<in> set (AList.update (resolved w t) i s)
      \<or> (\<exists>t'. (t', p) \<in> set xs \<and> resolved w t' = a)"
    unfolding x range_servers_Cons by (rule Cons.IH)
  with set_update_subset [of "resolved w t" i s] show ?case
    unfolding x by auto
qed

lemma range_servers_injective:
  assumes "distinct (map (\<lambda>x. resolved w (fst x)) xs)"
    and "\<forall>x \<in> set xs. resolved w (fst x) \<notin> fst ` set s"
  shows "fst (range_servers w xs (s, l)) = s @ map (\<lambda>(t, i). (resolved w t, i)) xs"
  using assms
proof (induction xs arbitrary: s l)
  case Nil
  show ?case by simp
next
  case (Cons x xs)
  obtain t i where x: "x = (t, i)" by (cases x)
  from Cons.prems(2) have fresh: "resolved w t \<notin> fst ` set s"
    unfolding x by simp
  have d: "distinct (map (\<lambda>x. resolved w (fst x)) xs)"
    using Cons.prems(1) by simp
  have "\<forall>y \<in> set xs. resolved w (fst y) \<notin> fst ` set (s @ [(resolved w t, i)])"
  proof
    fix y assume y: "y \<in> set xs"
    with Cons.prems(2) have "resolved w (fst y) \<notin> fst ` set s" by simp
    moreover from y Cons.prems(1) have "resolved w (fst y) \<noteq> resolved w t"
      unfolding x by force
    ultimately show "resolved w (fst y) \<notin> fst ` set (s @ [(resolved w t, i)])" by simp
  qed
  from Cons.IH [OF d this] show ?case
    unfolding x range_servers_Cons update_fresh_key [OF fresh] by simp
qed

lemma overlay_Servers_no_targets:
  "Servers (overlay w [] iface monitoringPort interval dscp cfg0)
     = fst (range_servers w (Servers cfg0) ([], []))"
  unfolding overlay_eq by simp

text \<open>
  Claim C6, as amended. When the list of targets is empty, \<^verbatim>\<open>PrepareConfig\<close> keeps the
  server mapping of the defaults and file stage with every key replaced by its normalized
  address: the keys of the result are exactly the normalized addresses of the keys of the
  file, and every entry of the result carries the priority of an entry of the file whose
  key normalizes to its address. When the normalized addresses of the keys are pairwise
  distinct, every entry keeps its own priority, no entry is dropped, and the multiset of
  priorities is preserved.
\<close>

theorem PrepareConfig_no_targets:
  assumes "defaults_file_stage k w cfgPath = Inr (Some cfg0)"
    and "fst (PrepareConfig k w cfgPath [] iface monitoringPort interval dscp) = Returns (Some cfg, None)"
  shows "fst ` set (Servers cfg) = resolved w ` fst ` set (Servers cfg0)
       \<and> distinct (map fst (Servers cfg))
       \<and> (\<forall>a p. (a, p) \<in> set (Servers cfg)
              \<longrightarrow> (\<exists>t. (t, p) \<in> set (Servers cfg0) \<and> resolved w t = a))
       \<and> (distinct (map (\<lambda>x. resolved w (fst x)) (Servers cfg0)) \<longrightarrow>
             Servers cfg = map (\<lambda>(t, i). (resolved w t, i)) (Servers cfg0)
           \<and> mset (map snd (Servers cfg)) = mset (map snd (Servers cfg0))
           \<and> length (Servers cfg) = length (Servers cfg0))"
proof -
  from PrepareConfig_success [OF assms(2)] assms(1)
  have cfg: "cfg = overlay w [] iface monitoringPort interval dscp cfg0"
    by auto
  have servers: "Servers cfg = fst (range_servers w (Servers cfg0) ([], []))"
    unfolding cfg by (rule overlay_Servers_no_targets)
  have keys: "fst ` set (Servers cfg) = resolved w ` fst ` set (Servers cfg0)"
    unfolding servers range_servers_keys by simp
  have dist: "distinct (map fst (Servers cfg))"
    unfolding servers by (rule range_servers_distinct) simp
  have origin: "\<exists>t. (t, p) \<in> set (Servers cfg0) \<and> resolved w t = a"
    if "(a, p) \<in> set (Servers cfg)" for a p
    using range_servers_origin [of a p w "Servers cfg0" "[]" "[]"] that
    unfolding servers by simp
  have inj: "Servers cfg = map (\<lambda>(t, i). (resolved w t, i)) (Servers cfg0)
           \<and> mset (map snd (Servers cfg)) = mset (map snd (Servers cfg0))
           \<and> length (Servers cfg) = length (Servers cfg0)"
    if d: "distinct (map (\<lambda>x. resolved w (fst x)) (Servers cfg0))"
  proof -
    have eq: "Servers cfg = map (\<lambda>(t, i). (resolved w t, i)) (Servers cfg0)"
      unfolding servers using range_servers_injective [OF d, of "[]" "[]"] by simp
    have mp: "map snd (Servers cfg) = map snd (Servers cfg0)"
      unfolding eq by (simp add: case_prod_beta)
    have ms: "mset (map snd (Servers cfg)) = mset (map snd (Servers cfg0))"
      by (simp only: mp)
    have ln: "length (Servers cfg) = length (Servers cfg0)"
      unfolding eq by simp
    from eq ms ln show ?thesis by blast
  qed
  from keys dist origin inj show ?thesis by blast
qed

text \<open>Runs without targets: a file with two names of one address, in both orders.\<close>

lemma sample_overlay_aliased_file:
  "overlay (sample_world aliased_dns fs) [] '''' 0 0 0
          (sample_file_config [(''host-a'', 5), (''host-b'', 7)])
     = (sample_file_config [(''host-a'', 5), (''host-b'', 7)])
          \<lparr>Servers := [(''10.0.0.1'', 7)], Iface := ''eth1'',
           MonitoringPort := 0, Interval := 1000000000, DSCP := 8\<rparr>"
  "overlay (sample_world aliased_dns fs) [] '''' 0 0 0
          (sample_file_config [(''host-b'', 7), (''host-a'', 5)])
     = (sample_file_config [(''host-b'', 7), (''host-a'', 5)])
          \<lparr>Servers := [(''10.0.0.1'', 5)], Iface := ''eth1'',
           MonitoringPort := 0, Interval := 1000000000, DSCP := 8\<rparr>"
  unfolding overlay_eq
  by (simp_all add: sample_resolved sample_file_config_def DefaultConfig_def Second_def
        Millisecond_def Nanosecond_def)

lemma sample_file_config_Servers: "Servers (sample_file_config fs) = fs"
  by (simp add: sample_file_config_def)

text \<open>
  Claim C6 as stated fails when two keys normalize to the same address: the file's
  mapping \<open>{host-a: 5, host-b: 7}\<close>, both names resolved to \<open>10.0.0.1\<close>, becomes a mapping
  with one entry, \<open>10.0.0.1: 7\<close> when the runtime visits \<open>host-a\<close> first and
  \<open>10.0.0.1: 5\<close> when it visits \<open>host-b\<close> first. An entry is dropped and the multiset
  of priorities changes.
\<close>

theorem PrepareConfig_no_targets_same_address:
  "fst (PrepareConfig sample_constants
          (sample_world aliased_dns [(''host-a'', 5), (''host-b'', 7)])
          ''/etc/sptp.yaml'' [] '''' 0 0 0)
     = Returns (Some ((sample_file_config [(''host-a'', 5), (''host-b'', 7)])
                \<lparr>Servers := [(''10.0.0.1'', 7)], Iface := ''eth1'',
                  MonitoringPort := 0, Interval := 1000000000, DSCP := 8\<rparr>), None)
   \<and> fst (PrepareConfig sample_constants
          (sample_world aliased_dns [(''host-b'', 7), (''host-a'', 5)])
          ''/etc/sptp.yaml'' [] '''' 0 0 0)
     = Returns (Some ((sample_file_config [(''host-b'', 7), (''host-a'', 5)])
                \<lparr>Servers := [(''10.0.0.1'', 5)], Iface := ''eth1'',
                  MonitoringPort := 0, Interval := 1000000000, DSCP := 8\<rparr>), None)
   \<and> Servers (sample_file_config [(''host-a'', 5), (''host-b'', 7)])
       = [(''host-a'', 5), (''host-b'', 7)]
   \<and> mset (map snd [(''10.0.0.1'', 7 :: int)]) \<noteq> mset (map snd [(''host-a'', 5 :: int), (''host-b'', 7)])
   \<and> mset (map snd [(''10.0.0.1'', 5 :: int)]) \<noteq> mset (map snd [(''host-b'', 7 :: int), (''host-a'', 5)])
   \<and> length [(''10.0.0.1'', 7 :: int)] \<noteq> length [(''host-a'', 5 :: int), (''host-b'', 7)]"
  by (simp add: PrepareConfig_eq sample_defaults_file_stage sample_overlay_aliased_file
        sample_valid sample_file_config_Servers)

text \<open>
  With two addresses the mapping \<open>{host-a: 5, host-b: 7}\<close> becomes
  \<open>{10.0.0.1: 5, 10.0.0.2: 7}\<close>.
\<close>

theorem PrepareConfig_no_targets_witness:
  "Servers (sample_file_config [(''host-a'', 5), (''host-b'', 7)])
       = [(''host-a'', 5), (''host-b'', 7)]
   \<and> resolved (sample_world distinct_dns [(''host-a'', 5), (''host-b'', 7)]) ''host-a'' = ''10.0.0.1''
   \<and> resolved (sample_world distinct_dns [(''host-a'', 5), (''host-b'', 7)]) ''host-b'' = ''10.0.0.2''
   \<and> (\<exists>cfg. fst (PrepareConfig sample_constants
                 (sample_world distinct_dns [(''host-a'', 5), (''host-b'', 7)])
                 ''/etc/sptp.yaml'' [] '''' 0 0 0) = Returns (Some cfg, None)
         \<and> Servers cfg = [(''10.0.0.1'', 5), (''10.0.0.2'', 7)]
         \<and> mset (map snd (Servers cfg)) = {#5, 7#})"
  using PrepareConfig_no_targets [OF sample_defaults_file_stage sample_run_no_flags]
  by (simp add: sample_run_no_flags resolved_def sample_resolved sample_file_config_Servers)

end
